theory Spec2Isabelle
  imports
    Main
    "HOL-Library.Char_ord"
    "HOL-Library.List_Lexorder"
    "HOL-Library.Sublist"
    "HOL-Library.AList"
begin

section \<open>Strings as Python handles them\<close>

text \<open>
  A Python \<open>str\<close> is modelled as a \<open>string\<close> holding its UTF-8 bytes. Comparing two such
  byte lists lexicographically gives the order of Python's code-point comparison, which
  is the order \<open>sorted\<close> uses on the display names.
\<close>

text \<open>\<open>needle in haystack\<close> on two strings.\<close>

fun contains :: "string \<Rightarrow> string \<Rightarrow> bool" where
  "contains [] needle = (needle = [])"
| "contains (c # cs) needle = (prefix needle (c # cs) \<or> contains cs needle)"

text \<open>
  \<open>s.replace(old, new)\<close> for a non-empty \<open>old\<close>: every occurrence found scanning from the
  left is replaced and the scan goes on behind it. The two uses in the source have a
  non-empty \<open>old\<close>; an empty one leaves the string as it is here.
\<close>

function replace :: "string \<Rightarrow> string \<Rightarrow> string \<Rightarrow> string" where
  "replace old new [] = []"
| "replace old new (c # cs) =
     (if old \<noteq> [] \<and> prefix old (c # cs)
      then new @ replace old new (drop (length old) (c # cs))
      else c # replace old new cs)"
  by pat_completeness auto
termination
  by (relation "measure (\<lambda>(old, new, s). length s)") auto

text \<open>\<open>s.split('/')[-1]\<close>: what follows the last slash, the whole string when there is none.\<close>

definition last_segment :: "string \<Rightarrow> string" where
  "last_segment s = rev (takeWhile (\<lambda>c. c \<noteq> CHR ''/'') (rev s))"

definition is_lower :: "char \<Rightarrow> bool" where
  "is_lower c = (CHR ''a'' \<le> c \<and> c \<le> CHR ''z'')"

definition is_upper :: "char \<Rightarrow> bool" where
  "is_upper c = (CHR ''A'' \<le> c \<and> c \<le> CHR ''Z'')"

definition to_upper :: "char \<Rightarrow> char" where
  "to_upper c = (if is_lower c then char_of (of_char c - (32::nat)) else c)"

definition to_lower :: "char \<Rightarrow> char" where
  "to_lower c = (if is_upper c then char_of (of_char c + (32::nat)) else c)"

text \<open>
  \<open>s.title()\<close>, with the flag \<open>previous_is_cased\<close> of CPython's loop as the first
  argument. Only the ASCII letters are cased here; Python also maps the letters beyond
  ASCII, whose bytes this function hands through.
\<close>

fun title_from :: "bool \<Rightarrow> string \<Rightarrow> string" where
  "title_from prev [] = []"
| "title_from prev (c # cs) =
     (if is_lower c then (if prev then c else to_upper c) # title_from True cs
      else if is_upper c then (if prev then to_lower c else c) # title_from True cs
      else c # title_from False cs)"

definition title :: "string \<Rightarrow> string" where
  "title s = title_from False s"

section \<open>The region catalog: \<open>api_osm_regions\<close>\<close>

text \<open>
  \<open>re.findall(r'href="([^"]+\.osm\.pbf)"', html)\<close>. The class \<open>[^"]+\<close> cannot step over a
  quote and the pattern wants a quote right behind \<open>.osm.pbf\<close>, so a match at a position
  is: the text \<open>href="\<close>, the run of characters up to the next quote, that quote present,
  and the run ending in \<open>.osm.pbf\<close> with at least one character before it. The group is
  the run. \<open>findall\<close> takes the leftmost match, goes on behind its closing quote, and
  moves one character on where nothing matches.
\<close>

definition match_at :: "string \<Rightarrow> (string \<times> string) option" where
  "match_at s =
     (if prefix ''href=\"'' s
      then (let body = drop 6 s;
                run = takeWhile (\<lambda>c. c \<noteq> CHR 0x22) body;
                rest = dropWhile (\<lambda>c. c \<noteq> CHR 0x22) body
            in if rest \<noteq> [] \<and> suffix ''.osm.pbf'' run \<and> 8 < length run
               then Some (run, tl rest) else None)
      else None)"

function findall :: "string \<Rightarrow> string list" where
  "findall [] = []"
| "findall (c # cs) =
     (case match_at (c # cs) of
        Some (g, rest) \<Rightarrow> g # findall rest
      | None \<Rightarrow> findall cs)"
  by pat_completeness auto
termination
proof (relation "measure length")
  show "wf (measure length)" by simp
next
  fix c :: char and cs :: string
  show "(cs, c # cs) \<in> measure length" by simp
next
  fix c :: char and cs x2 g rest
  assume "match_at (c # cs) = Some x2" and "(g, rest) = x2"
  then have m: "match_at (c # cs) = Some (g, rest)" by simp
  then have p: "prefix ''href=\"'' (c # cs)"
    and r: "rest = tl (dropWhile (\<lambda>c. c \<noteq> CHR 0x22) (drop 6 (c # cs)))"
    by (auto simp: match_at_def Let_def split: if_splits)
  from p have "6 \<le> length (c # cs)"
    using prefix_length_le by fastforce
  moreover have "length rest \<le> length (drop 6 (c # cs))"
    unfolding r
    using length_dropWhile_le [of "\<lambda>c. c \<noteq> CHR 0x22" "drop 6 (c # cs)"] by simp
  ultimately show "(rest, c # cs) \<in> measure length" by simp
qed

record region =
  id_field :: string
  name_field :: string

text \<open>The body of the loop over the matches: the entries appended to \<open>regions\<close>.\<close>

fun collect_regions :: "string \<Rightarrow> string list \<Rightarrow> region list" where
  "collect_regions base [] = []"
| "collect_regions base (m # ms) =
     (if contains m (base @ ''-latest'') then collect_regions base ms
      else (let filename = last_segment m;
                name = replace ''-latest.osm.pbf'' '''' filename;
                display = title (replace ''-'' '' '' name)
            in \<lparr>id_field = name, name_field = display\<rparr> # collect_regions base ms))"

text \<open>The loop "sort and dedupe": \<open>seen\<close> is the set the source keeps.\<close>

fun dedupe :: "string set \<Rightarrow> region list \<Rightarrow> region list" where
  "dedupe seen [] = []"
| "dedupe seen (r # rs) =
     (if id_field r \<notin> seen then r # dedupe (insert (id_field r) seen) rs
      else dedupe seen rs)"

definition unique_regions :: "string \<Rightarrow> string list \<Rightarrow> region list" where
  "unique_regions base matches = dedupe {} (sort_key name_field (collect_regions base matches))"

section \<open>JSON values and the persisted user configuration\<close>

text \<open>
  What \<open>json.load\<close> returns and \<open>jsonify\<close> sends. A Python \<open>dict\<close> is the list of its items
  in insertion order: \<open>map_of\<close> is the lookup, \<open>AList.update\<close> is \<open>d[k] = v\<close> (the value is
  replaced in place, a new key goes to the end).
\<close>

datatype json =
    JNull
  | JBool bool
  | JNum int
  | JStr string
  | JArr "json list"
  | JObj "(string \<times> json) list"

type_synonym dict = "(string \<times> json) list"










section \<open>Paths and the session\<close>

text \<open>
  A \<open>pathlib\<close> path: whether it is absolute, and its parts. \<open>parse_path\<close> is \<open>Path(s)\<close>: empty
  parts and \<open>.\<close> are dropped, \<open>..\<close> stays. POSIX keeps a root of exactly two slashes apart
  from \<open>/\<close>; Linux resolves both alike, and both are the absolute root here.
\<close>

datatype path = Path bool "string list"

fun is_absolute :: "path \<Rightarrow> bool" where
  "is_absolute (Path a ps) = a"

fun parts :: "path \<Rightarrow> string list" where
  "parts (Path a ps) = ps"

fun split_slash :: "string \<Rightarrow> string list" where
  "split_slash [] = [[]]"
| "split_slash (c # cs) =
     (if c = CHR ''/'' then [] # split_slash cs
      else (case split_slash cs of
              [] \<Rightarrow> [[c]]
            | p # ps \<Rightarrow> (c # p) # ps))"

definition path_parts :: "string \<Rightarrow> string list" where
  "path_parts s = filter (\<lambda>p. p \<noteq> [] \<and> p \<noteq> ''.'') (split_slash s)"

definition parse_path :: "string \<Rightarrow> path" where
  "parse_path s = Path (prefix ''/'' s) (path_parts s)"

text \<open>\<open>p / s\<close>: an absolute \<open>s\<close> replaces \<open>p\<close>.\<close>

fun joinpath :: "path \<Rightarrow> string \<Rightarrow> path" where
  "joinpath (Path a ps) s =
     (if prefix ''/'' s then parse_path s else Path a (ps @ path_parts s))"

fun parent :: "path \<Rightarrow> path" where
  "parent (Path a ps) = Path a (butlast ps)"

fun name_of :: "path \<Rightarrow> string" where
  "name_of (Path a ps) = (if ps = [] then [] else last ps)"

fun with_name :: "path \<Rightarrow> string \<Rightarrow> path" where
  "with_name (Path a ps) n = Path a (butlast ps @ [n])"

text \<open>
  The keys of the Flask session the download workflow reads; a key that is not set is
  \<open>None\<close>. \<open>home\<close> below is \<open>Path.home()\<close>.
\<close>

record session =
  drive_type :: "string option"
  usb_path :: "string option"
  lang :: "string option"
  callsign :: "string option"

text \<open>\<open>session.get(key, default)\<close>.\<close>

definition get_or :: "string option \<Rightarrow> string \<Rightarrow> string" where
  "get_or v d = (case v of None \<Rightarrow> d | Some x \<Rightarrow> x)"

definition TILESET_DIR :: "path \<Rightarrow> path" where
  "TILESET_DIR home = joinpath home ''.local/share/emcomm-tools/mbtileserver/tilesets''"

definition PBF_MAP_DIR :: "path \<Rightarrow> path" where
  "PBF_MAP_DIR home = joinpath home ''my-maps''"

definition ZIM_DIR :: "path \<Rightarrow> path" where
  "ZIM_DIR home = joinpath home ''wikipedia''"


text \<open>
  The block "Determine destination" that \<open>download_tiles\<close> and \<open>api_download_tile\<close>,
  \<open>download_osm\<close> and \<open>download_osm_progress\<close>, \<open>download_wiki\<close> and \<open>api_download_wiki\<close> each
  write out, one definition for each category.
\<close>

definition tiles_dest :: "path \<Rightarrow> session \<Rightarrow> path" where
  "tiles_dest home s =
     (if drive_type s = Some ''usb''
      then joinpath (parse_path (get_or (usb_path s) [])) ''tilesets''
      else TILESET_DIR home)"

definition osm_dest :: "path \<Rightarrow> session \<Rightarrow> path" where
  "osm_dest home s =
     (if drive_type s = Some ''usb''
      then joinpath (parse_path (get_or (usb_path s) [])) ''my-maps''
      else PBF_MAP_DIR home)"

definition wiki_dest :: "path \<Rightarrow> session \<Rightarrow> path" where
  "wiki_dest home s =
     (if drive_type s = Some ''usb''
      then joinpath (parse_path (get_or (usb_path s) [])) ''wikipedia''
      else ZIM_DIR home)"

section \<open>Fetching the remote listings\<close>

text \<open>
  What \<open>urllib.request.urlopen(url, timeout=30)\<close>, \<open>read()\<close> and \<open>decode('utf-8')\<close> together
  give for a URL: an exception (a network error, a timeout, bytes that are not UTF-8), kept
  as its message, or the text of the page. The network is the function \<open>urlopen\<close> below.
\<close>

datatype fetch = FetchFailed string | FetchOk string

definition OSM_CANADA_URL :: string where
  "OSM_CANADA_URL = ''http://download.geofabrik.de/north-america/canada.html''"

definition OSM_USA_URL :: string where
  "OSM_USA_URL = ''http://download.geofabrik.de/north-america/us.html''"

definition KIWIX_URL :: string where
  "KIWIX_URL = ''http://download.kiwix.org/zim/wikipedia''"

definition osm_url :: "string \<Rightarrow> string" where
  "osm_url country = (if country = ''canada'' then OSM_CANADA_URL else OSM_USA_URL)"

definition osm_base :: "string \<Rightarrow> string" where
  "osm_base country = (if country = ''canada'' then ''canada'' else ''us'')"

definition region_json :: "region \<Rightarrow> json" where
  "region_json r = JObj [(''id'', JStr (id_field r)), (''name'', JStr (name_field r))]"

text \<open>\<open>api_osm_regions(country)\<close>: the dictionary handed to \<open>jsonify\<close>.\<close>

definition api_osm_regions :: "(string \<Rightarrow> fetch) \<Rightarrow> string \<Rightarrow> dict" where
  "api_osm_regions urlopen country =
     (let url = osm_url country; base = osm_base country
      in case urlopen url of
           FetchOk html \<Rightarrow>
             [(''regions'', JArr (map region_json (unique_regions base (findall html))))]
         | FetchFailed e \<Rightarrow> [(''error'', JStr e), (''regions'', JArr [])])"



section \<open>The file system and the processes around the wizard\<close>

text \<open>
  The file system is the list of its entries: the absolute path of an entry, as the list
  of its parts, and what is there. \<open>map_of\<close> looks a path up; a directory is listed by
  going through the entries. Paths are looked up part by part as they are written: a
  symbolic link is followed where a call of the source follows it in the last position
  (\<open>exists\<close>, \<open>is_dir\<close>, \<open>stat\<close>, opening a file), a directory that is itself reached through
  a link is not entered, and \<open>..\<close> is a name like any other. Times and owners are left out.
\<close>

type_synonym fpath = "string list"

datatype node = File string | Dir | Link path

type_synonym filesys = "(fpath \<times> node) list"

text \<open>
  The calls that change something, for the operating system to refuse: a read-only or
  write-protected volume, missing permissions, a failing drive. \<open>refuses\<close> of the world
  says which calls are refused; a refused call changes nothing and raises.
\<close>

datatype syscall =
    Utime fpath
  | Create fpath
  | Write fpath
  | Unlink fpath
  | Mkdir fpath
  | Rename fpath fpath
  | Symlink fpath

datatype exn =
    FileNotFoundError
  | FileExistsError
  | NotADirectoryError
  | IsADirectoryError
  | PermissionError
  | OSError
  | CalledProcessError int
  | TimeoutExpired

type_synonym 'a result = "exn + 'a"

text \<open>
  How a run of \<open>curl\<close> for a URL ends when nothing stops it: its exit code, the bytes it
  leaves in the file given with \<open>-o\<close> (\<open>None\<close>: it leaves no file), its standard error, and
  how long it takes. A run that \<open>subprocess.run\<close> stops at its timeout leaves the same
  bytes.
\<close>

record curl_run =
  returncode :: int
  left_on_disk :: "string option"
  stderr :: string
  seconds :: nat

datatype event = Curl string path

record world =
  fs :: filesys
  cwd :: fpath
  refuses :: "syscall \<Rightarrow> bool"
  curl_installed :: bool
  curl_does :: "string \<Rightarrow> curl_run"
  started :: "event list"

fun key :: "world \<Rightarrow> path \<Rightarrow> fpath" where
  "key w (Path a ps) = (if a then ps else cwd w @ ps)"

definition node_at :: "world \<Rightarrow> fpath \<Rightarrow> node option" where
  "node_at w k = map_of (fs w) k"

text \<open>Where a link at \<open>k\<close> with target \<open>t\<close> points: a relative target starts at the link's directory.\<close>

definition target_key :: "fpath \<Rightarrow> path \<Rightarrow> fpath" where
  "target_key k t = (if is_absolute t then parts t else butlast k @ parts t)"

text \<open>The entry a chain of links ends in, after at most \<open>n\<close> links (Linux gives up after 40).\<close>

fun final_key :: "world \<Rightarrow> nat \<Rightarrow> fpath \<Rightarrow> fpath option" where
  "final_key w 0 k = None"
| "final_key w (Suc n) k =
     (case node_at w k of
        Some (Link t) \<Rightarrow> final_key w n (target_key k t)
      | _ \<Rightarrow> Some k)"

definition stat :: "world \<Rightarrow> path \<Rightarrow> node option" where
  "stat w p = (case final_key w 40 (key w p) of None \<Rightarrow> None | Some k \<Rightarrow> node_at w k)"

definition lstat :: "world \<Rightarrow> path \<Rightarrow> node option" where
  "lstat w p = node_at w (key w p)"

definition exists :: "world \<Rightarrow> path \<Rightarrow> bool" where
  "exists w p = (stat w p \<noteq> None)"

definition is_dir :: "world \<Rightarrow> path \<Rightarrow> bool" where
  "is_dir w p = (stat w p = Some Dir)"

definition is_symlink :: "world \<Rightarrow> path \<Rightarrow> bool" where
  "is_symlink w p = (case lstat w p of Some (Link t) \<Rightarrow> True | _ \<Rightarrow> False)"

text \<open>\<open>stat().st_size\<close>: the length of a file; a directory counts one block.\<close>

definition st_size :: "world \<Rightarrow> path \<Rightarrow> nat" where
  "st_size w p = (case stat w p of Some (File c) \<Rightarrow> length c | Some Dir \<Rightarrow> 4096 | _ \<Rightarrow> 0)"

text \<open>What is wrong with the directory an entry \<open>k\<close> is to be made or changed in, if anything.\<close>

definition parent_error :: "world \<Rightarrow> fpath \<Rightarrow> exn option" where
  "parent_error w k =
     (if k = [] then None
      else (case node_at w (butlast k) of
              None \<Rightarrow> Some FileNotFoundError
            | Some Dir \<Rightarrow> None
            | Some n \<Rightarrow> Some NotADirectoryError))"

definition os_mkdir :: "world \<Rightarrow> fpath \<Rightarrow> unit result \<times> world" where
  "os_mkdir w k =
     (case parent_error w k of
        Some e \<Rightarrow> (Inl e, w)
      | None \<Rightarrow>
          if node_at w k \<noteq> None then (Inl FileExistsError, w)
          else if refuses w (Mkdir k) then (Inl PermissionError, w)
          else (Inr (), w\<lparr>fs := AList.update k Dir (fs w)\<rparr>))"

text \<open>\<open>p.mkdir(exist_ok=True)\<close> and \<open>p.mkdir(parents=True, exist_ok=True)\<close>, as pathlib writes them.\<close>

definition mkdir_exist_ok :: "world \<Rightarrow> path \<Rightarrow> unit result \<times> world" where
  "mkdir_exist_ok w p =
     (case os_mkdir w (key w p) of
        (Inr u, w1) \<Rightarrow> (Inr (), w1)
      | (Inl e, w1) \<Rightarrow>
          if e = FileNotFoundError then (Inl e, w1)
          else if is_dir w1 p then (Inr (), w1)
          else (Inl e, w1))"

function mkdir_parents :: "world \<Rightarrow> path \<Rightarrow> unit result \<times> world" where
  "mkdir_parents w (Path a ps) =
     (case os_mkdir w (key w (Path a ps)) of
        (Inr u, w1) \<Rightarrow> (Inr (), w1)
      | (Inl e, w1) \<Rightarrow>
          if e = FileNotFoundError
          then (if ps = [] then (Inl e, w1)
                else (case mkdir_parents w1 (Path a (butlast ps)) of
                        (Inl e2, w2) \<Rightarrow> (Inl e2, w2)
                      | (Inr u, w2) \<Rightarrow> mkdir_exist_ok w2 (Path a ps)))
          else if is_dir w1 (Path a ps) then (Inr (), w1)
          else (Inl e, w1))"
  by pat_completeness auto
termination
  by (relation "measure (\<lambda>(w, p). length (parts p))") auto

text \<open>
  \<open>p.touch()\<close>: \<open>os.utime\<close> first, and when it raises, \<open>os.open\<close> with \<open>O_CREAT\<close>. Both follow a
  link in the last position.
\<close>

definition os_utime :: "world \<Rightarrow> fpath \<Rightarrow> unit result \<times> world" where
  "os_utime w k =
     (case final_key w 40 k of
        None \<Rightarrow> (Inl OSError, w)
      | Some k' \<Rightarrow>
          if node_at w k' = None then (Inl FileNotFoundError, w)
          else if refuses w (Utime k') then (Inl PermissionError, w)
          else (Inr (), w))"

definition os_open_creat :: "world \<Rightarrow> fpath \<Rightarrow> unit result \<times> world" where
  "os_open_creat w k =
     (case final_key w 40 k of
        None \<Rightarrow> (Inl OSError, w)
      | Some k' \<Rightarrow>
          (case node_at w k' of
             Some Dir \<Rightarrow> (Inl IsADirectoryError, w)
           | Some n \<Rightarrow> if refuses w (Write k') then (Inl PermissionError, w) else (Inr (), w)
           | None \<Rightarrow>
               (case parent_error w k' of
                  Some e \<Rightarrow> (Inl e, w)
                | None \<Rightarrow>
                    if refuses w (Create k') then (Inl PermissionError, w)
                    else (Inr (), w\<lparr>fs := AList.update k' (File []) (fs w)\<rparr>))))"

definition touch :: "world \<Rightarrow> path \<Rightarrow> unit result \<times> world" where
  "touch w p =
     (case os_utime w (key w p) of
        (Inr u, w1) \<Rightarrow> (Inr (), w1)
      | (Inl e, w1) \<Rightarrow> os_open_creat w1 (key w p))"

text \<open>\<open>p.unlink()\<close>: the entry itself goes, a link is not followed.\<close>

definition unlink :: "world \<Rightarrow> path \<Rightarrow> unit result \<times> world" where
  "unlink w p =
     (let k = key w p
      in case node_at w k of
           None \<Rightarrow> (Inl FileNotFoundError, w)
         | Some Dir \<Rightarrow> (Inl IsADirectoryError, w)
         | Some n \<Rightarrow>
             if refuses w (Unlink k) then (Inl PermissionError, w)
             else (Inr (), w\<lparr>fs := AList.delete k (fs w)\<rparr>))"

text \<open>\<open>p.symlink_to(target)\<close>.\<close>

definition symlink_to :: "world \<Rightarrow> path \<Rightarrow> path \<Rightarrow> unit result \<times> world" where
  "symlink_to w p target =
     (let k = key w p
      in case parent_error w k of
           Some e \<Rightarrow> (Inl e, w)
         | None \<Rightarrow>
             if node_at w k \<noteq> None then (Inl FileExistsError, w)
             else if refuses w (Symlink k) then (Inl PermissionError, w)
             else (Inr (), w\<lparr>fs := AList.update k (Link target) (fs w)\<rparr>))"

text \<open>The names in a directory, \<open>os.listdir\<close>.\<close>

definition names_in :: "world \<Rightarrow> fpath \<Rightarrow> string list" where
  "names_in w k = remdups (map (last \<circ> fst) (filter (\<lambda>(k', n). k' \<noteq> [] \<and> butlast k' = k) (fs w)))"

definition listdir :: "world \<Rightarrow> path \<Rightarrow> string list result" where
  "listdir w p =
     (case node_at w (key w p) of
        None \<Rightarrow> Inl FileNotFoundError
      | Some Dir \<Rightarrow> Inr (names_in w (key w p))
      | Some n \<Rightarrow> Inl NotADirectoryError)"

text \<open>
  \<open>p.rename(q)\<close>, the \<open>rename\<close> of POSIX: the entry and all below it move; a target that is
  there is replaced if it is an empty directory and a directory moves, or if it is no
  directory and no directory moves.
\<close>

definition moved :: "fpath \<Rightarrow> fpath \<Rightarrow> filesys \<Rightarrow> filesys" where
  "moved src dst f =
     map (\<lambda>(k, n). (dst @ drop (length src) k, n)) (filter (\<lambda>(k, n). prefix src k) f)
     @ filter (\<lambda>(k, n). \<not> prefix src k \<and> \<not> prefix dst k) f"

definition rename :: "world \<Rightarrow> path \<Rightarrow> path \<Rightarrow> unit result \<times> world" where
  "rename w p q =
     (let src = key w p; dst = key w q
      in case node_at w src of
           None \<Rightarrow> (Inl FileNotFoundError, w)
         | Some n \<Rightarrow>
             (case parent_error w dst of
                Some e \<Rightarrow> (Inl e, w)
              | None \<Rightarrow>
                  if src = dst then (Inr (), w)
                  else if prefix src dst then (Inl OSError, w)
                  else if n = Dir \<and> node_at w dst \<noteq> None \<and> node_at w dst \<noteq> Some Dir
                  then (Inl NotADirectoryError, w)
                  else if n = Dir \<and> names_in w dst \<noteq> [] then (Inl OSError, w)
                  else if n \<noteq> Dir \<and> node_at w dst = Some Dir then (Inl IsADirectoryError, w)
                  else if refuses w (Rename src dst) then (Inl PermissionError, w)
                  else (Inr (), w\<lparr>fs := moved src dst (fs w)\<rparr>)))"

text \<open>
  \<open>subprocess.run(['curl', '-L', '-f', '-o', dest, url], ...)\<close> with \<open>check\<close> and an optional
  timeout in seconds. The run is noted in \<open>started\<close>; the bytes it leaves go to \<open>dest\<close>
  (through a link in the last position) when the directory of \<open>dest\<close> is there. The result
  is the exit code and the standard error, or the exception \<open>subprocess.run\<close> raises: for
  a missing program, at the timeout, and with \<open>check\<close> for an exit code that is not 0.
\<close>

definition write_file :: "world \<Rightarrow> fpath \<Rightarrow> string \<Rightarrow> world" where
  "write_file w k c =
     (case final_key w 40 k of
        None \<Rightarrow> w
      | Some k' \<Rightarrow>
          if node_at w k' = Some Dir \<or> parent_error w k' \<noteq> None then w
          else w\<lparr>fs := AList.update k' (File c) (fs w)\<rparr>)"

definition run_curl ::
  "world \<Rightarrow> bool \<Rightarrow> nat option \<Rightarrow> string \<Rightarrow> path \<Rightarrow> (int \<times> string) result \<times> world" where
  "run_curl w check timeout url dest =
     (if \<not> curl_installed w then (Inl FileNotFoundError, w)
      else (let r = curl_does w url;
                w1 = w\<lparr>started := started w @ [Curl url dest]\<rparr>;
                w2 = (case left_on_disk r of
                        None \<Rightarrow> w1
                      | Some c \<Rightarrow> write_file w1 (key w1 dest) c)
            in if (case timeout of Some t \<Rightarrow> t < seconds r | None \<Rightarrow> False)
               then (Inl TimeoutExpired, w2)
               else if check \<and> returncode r \<noteq> 0 then (Inl (CalledProcessError (returncode r)), w2)
               else (Inr (returncode r, stderr r), w2)))"

text \<open>Decimal digits, for \<open>f"{n}"\<close> on an integer.\<close>

function str_of_nat :: "nat \<Rightarrow> string" where
  "str_of_nat n =
     (if n < 10 then [char_of (48 + n)]
      else str_of_nat (n div 10) @ [char_of (48 + n mod 10)])"
  by pat_completeness auto
termination
  by (relation "measure id") auto

definition str_of_int :: "int \<Rightarrow> string" where
  "str_of_int i = (if i < 0 then ''-'' @ str_of_nat (nat (- i)) else str_of_nat (nat i))"

text \<open>\<open>str(p)\<close> for a path.\<close>

fun join_slash :: "string list \<Rightarrow> string" where
  "join_slash [] = []"
| "join_slash [p] = p"
| "join_slash (p # q # ps) = p @ ''/'' @ join_slash (q # ps)"

fun str_of_path :: "path \<Rightarrow> string" where
  "str_of_path (Path a ps) =
     (if a then ''/'' @ join_slash ps else if ps = [] then ''.'' else join_slash ps)"


section \<open>The download endpoints\<close>

text \<open>
  An endpoint takes the session, the fields of the JSON body it reads (\<open>None\<close> for a field
  that is missing; a field that is no string is not part of the model) and the world. It
  gives the dictionary it hands to \<open>jsonify\<close>, or the exception it lets out, and the world
  it leaves.
\<close>

definition TILE_BASE_URL :: string where
  "TILE_BASE_URL = ''https://github.com/thetechprepper/emcomm-tools-os-community/releases/download''"

definition TILE_RELEASE :: string where
  "TILE_RELEASE = ''emcomm-tools-os-community-20251128-r5-final-5.0.0''"

definition TILE_FILES :: "string list" where
  "TILE_FILES =
     [''osm-us-zoom0to11-20251120.mbtiles'',
      ''osm-ca-zoom0to10-20251120.mbtiles'',
      ''osm-world-zoom0to7-20251121.mbtiles'']"

definition OSM_BASE_CANADA :: string where
  "OSM_BASE_CANADA = ''http://download.geofabrik.de/north-america/canada''"

definition OSM_BASE_USA :: string where
  "OSM_BASE_USA = ''http://download.geofabrik.de/north-america/us''"

definition failure :: "string \<Rightarrow> dict" where
  "failure msg = [(''success'', JBool False), (''error'', JStr msg)]"

definition skipped_outcome :: dict where
  "skipped_outcome =
     [(''success'', JBool True), (''skipped'', JBool True), (''message'', JStr ''File already exists'')]"

definition success_outcome :: dict where
  "success_outcome = [(''success'', JBool True)]"

text \<open>The dictionary \<open>error_messages\<close> of \<open>api_download_tile\<close> and \<open>api_download_wiki\<close>.\<close>

definition error_messages :: "(int \<times> string) list" where
  "error_messages =
     [(6, ''No internet connection''),
      (7, ''Server not responding''),
      (22, ''File not found on server''),
      (23, ''Disk full - free up space''),
      (28, ''Connection timeout''),
      (56, ''Network error - try again'')]"

definition error_msg_of :: "(int \<times> string) list \<Rightarrow> int \<Rightarrow> string" where
  "error_msg_of table rc =
     (case map_of table rc of
        Some m \<Rightarrow> m
      | None \<Rightarrow> ''Download failed (error '' @ str_of_int rc @ '')'')"

definition api_download_tile :: "path \<Rightarrow> session \<Rightarrow> string option \<Rightarrow> world \<Rightarrow> dict result \<times> world" where
  "api_download_tile home s file w =
     (case file of
        None \<Rightarrow> (Inr (failure ''Invalid file''), w)
      | Some filename \<Rightarrow>
          if filename = [] \<or> filename \<notin> set TILE_FILES then (Inr (failure ''Invalid file''), w)
          else (let dest_dir = tiles_dest home s
                in case mkdir_parents w dest_dir of
                     (Inl e, w1) \<Rightarrow> (Inl e, w1)
                   | (Inr u, w1) \<Rightarrow>
                       (let dest_file = joinpath dest_dir filename
                        in if exists w1 dest_file then (Inr skipped_outcome, w1)
                           else (let url = TILE_BASE_URL @ ''/'' @ TILE_RELEASE @ ''/'' @ filename
                                 in case run_curl w1 True None url dest_file of
                                      (Inr r, w2) \<Rightarrow> (Inr success_outcome, w2)
                                    | (Inl (CalledProcessError rc), w2) \<Rightarrow>
                                        (Inr (failure (error_msg_of error_messages rc)), w2)
                                    | (Inl e, w2) \<Rightarrow> (Inl e, w2)))))"

definition api_download_wiki :: "path \<Rightarrow> session \<Rightarrow> string option \<Rightarrow> world \<Rightarrow> dict result \<times> world" where
  "api_download_wiki home s file w =
     (case file of
        None \<Rightarrow> (Inr (failure ''No file specified''), w)
      | Some filename \<Rightarrow>
          if filename = [] then (Inr (failure ''No file specified''), w)
          else (let dest_dir = wiki_dest home s
                in case mkdir_parents w dest_dir of
                     (Inl e, w1) \<Rightarrow> (Inl e, w1)
                   | (Inr u, w1) \<Rightarrow>
                       (let dest_file = joinpath dest_dir filename
                        in if exists w1 dest_file then (Inr skipped_outcome, w1)
                           else (let url = KIWIX_URL @ ''/'' @ filename
                                 in case run_curl w1 True (Some 1800) url dest_file of
                                      (Inr r, w2) \<Rightarrow> (Inr success_outcome, w2)
                                    | (Inl (CalledProcessError rc), w2) \<Rightarrow>
                                        (Inr (failure (error_msg_of error_messages rc)), w2)
                                    | (Inl TimeoutExpired, w2) \<Rightarrow>
                                        (Inr (failure ''Download timed out (30 min limit)''), w2)
                                    | (Inl e, w2) \<Rightarrow> (Inl e, w2)))))"

text \<open>The dictionary \<open>error_messages\<close> of \<open>api_download_osm\<close>, and \<open>str(e)\<close> for what it catches.\<close>

definition osm_error_messages :: "(int \<times> string) list" where
  "osm_error_messages =
     [(6, ''No internet connection - check your network''),
      (7, ''Server not responding - try again later''),
      (22, ''File not found on server''),
      (23, ''Disk full or write error - free up space''),
      (28, ''Download too slow - connection timeout''),
      (35, ''SSL/TLS connection failed''),
      (52, ''Server returned empty response''),
      (56, ''Network error during download - try again'')]"

fun str_of_exn :: "exn \<Rightarrow> string" where
  "str_of_exn FileNotFoundError = ''No such file or directory''"
| "str_of_exn FileExistsError = ''File exists''"
| "str_of_exn NotADirectoryError = ''Not a directory''"
| "str_of_exn IsADirectoryError = ''Is a directory''"
| "str_of_exn PermissionError = ''Permission denied''"
| "str_of_exn OSError = ''Input/output error''"
| "str_of_exn (CalledProcessError rc) = ''Command returned non-zero exit status '' @ str_of_int rc"
| "str_of_exn TimeoutExpired = ''Command timed out''"

text \<open>\<open>if dest_file.exists(): dest_file.unlink()\<close>, the clean-up of a partial file.\<close>

definition remove_if_exists :: "world \<Rightarrow> path \<Rightarrow> unit result \<times> world" where
  "remove_if_exists w p = (if exists w p then unlink w p else (Inr (), w))"

text \<open>The \<open>try\<close> block of \<open>api_download_osm\<close>, with what it raises still to be caught.\<close>

definition osm_transfer :: "world \<Rightarrow> string \<Rightarrow> path \<Rightarrow> dict result \<times> world" where
  "osm_transfer w url dest_file =
     (case run_curl w False (Some 1800) url dest_file of
        (Inl e, w1) \<Rightarrow> (Inl e, w1)
      | (Inr (rc, err), w1) \<Rightarrow>
          if rc \<noteq> 0
          then (let error_msg =
                      (if contains err ''Failed to open'' \<or> contains err ''No such file''
                       then ''Cannot create file - check drive permissions''
                       else error_msg_of osm_error_messages rc)
                in case remove_if_exists w1 dest_file of
                     (Inl e, w2) \<Rightarrow> (Inl e, w2)
                   | (Inr u, w2) \<Rightarrow> (Inr (failure error_msg), w2))
          else if \<not> exists w1 dest_file \<or> st_size w1 dest_file < 1000
          then (case remove_if_exists w1 dest_file of
                  (Inl e, w2) \<Rightarrow> (Inl e, w2)
                | (Inr u, w2) \<Rightarrow> (Inr (failure ''Download incomplete''), w2))
          else (Inr success_outcome, w1))"

definition api_download_osm ::
  "path \<Rightarrow> session \<Rightarrow> string option \<Rightarrow> string option \<Rightarrow> world \<Rightarrow> dict result \<times> world" where
  "api_download_osm home s region_field country_field w =
     (let country = get_or country_field ''canada''
      in case region_field of
           None \<Rightarrow> (Inr (failure ''No region selected''), w)
         | Some region \<Rightarrow>
             if region = [] then (Inr (failure ''No region selected''), w)
             else if drive_type s = Some ''usb'' \<and> get_or (usb_path s) [] = []
             then (Inr (failure ''USB path not set''), w)
             else (let dest_dir = osm_dest home s
                   in case mkdir_parents w dest_dir of
                        (Inl e, w1) \<Rightarrow>
                          (Inr (failure (''Cannot create directory: '' @ str_of_exn e)), w1)
                      | (Inr u, w1) \<Rightarrow>
                          (let url = (if country = ''canada''
                                      then OSM_BASE_CANADA @ ''/'' @ region @ ''-latest.osm.pbf''
                                      else OSM_BASE_USA @ ''/'' @ region @ ''-latest.osm.pbf'');
                               filename = region @ ''-latest.osm.pbf'';
                               dest_file = joinpath dest_dir filename
                           in if exists w1 dest_file then (Inr skipped_outcome, w1)
                              else (case osm_transfer w1 url dest_file of
                                      (Inr d, w2) \<Rightarrow> (Inr d, w2)
                                    | (Inl TimeoutExpired, w2) \<Rightarrow>
                                        (case remove_if_exists w2 dest_file of
                                           (Inl e, w3) \<Rightarrow> (Inl e, w3)
                                         | (Inr u, w3) \<Rightarrow>
                                             (Inr (failure ''Download timed out (30 min limit)''), w3))
                                    | (Inl e, w2) \<Rightarrow> (Inr (failure (str_of_exn e)), w2)))))"

section \<open>The write probe\<close>

definition check_path_writable :: "world \<Rightarrow> string \<Rightarrow> bool \<times> world" where
  "check_path_writable w path_str =
     (if path_str = [] then (False, w)
      else (let test_file = joinpath (parse_path path_str) ''.emcomm-write-test''
            in case touch w test_file of
                 (Inl e, w1) \<Rightarrow> (False, w1)
               | (Inr u, w1) \<Rightarrow>
                   (case unlink w1 test_file of
                      (Inl e, w2) \<Rightarrow> (False, w2)
                    | (Inr u, w2) \<Rightarrow> (True, w2))))"

text \<open>The sentinel file of the probe for a path.\<close>

definition probe_file :: "string \<Rightarrow> path" where
  "probe_file path_str = joinpath (parse_path path_str) ''.emcomm-write-test''"

section \<open>The archive catalog: \<open>api_wiki_files\<close>\<close>

text \<open>
  \<open>p.glob("*.zim")\<close>: the names in the directory that end in \<open>.zim\<close>; nothing when \<open>p\<close> is no
  directory.
\<close>

definition glob_zim :: "world \<Rightarrow> path \<Rightarrow> string list" where
  "glob_zim w p =
     (case listdir w p of
        Inr names \<Rightarrow> filter (suffix ''.zim'') names
      | Inl e \<Rightarrow> [])"

record wiki_file =
  zim_name :: string
  zim_display :: string
  zim_size :: string
  zim_exists :: bool

definition wiki_file_json :: "wiki_file \<Rightarrow> json" where
  "wiki_file_json f =
     JObj [(''name'', JStr (zim_name f)), (''display'', JStr (zim_display f)),
           (''size'', JStr (zim_size f)), (''exists'', JBool (zim_exists f))]"

text \<open>
  The body of the loop over the matches, for one match \<open>(filename, size)\<close>: the language the
  entry goes to, and the entry.
\<close>

definition wiki_entry :: "string list \<Rightarrow> string \<times> string \<Rightarrow> string \<times> wiki_file" where
  "wiki_entry existing_files m =
     (let filename = fst m;
          size0 = snd m;
          lang = (if contains filename ''wikipedia_en'' then ''en'' else ''fr'');
          display = replace ''.zim'' [] filename;
          size1 = (if size0 \<noteq> [] \<and> last size0 \<notin> set ''KMGT'' then size0 @ ''B'' else size0);
          ex = (filename \<in> set existing_files)
      in (lang, \<lparr>zim_name = filename, zim_display = display, zim_size = size1, zim_exists = ex\<rparr>))"

text \<open>
  \<open>api_wiki_files()\<close>. The pattern of this listing has two groups; what \<open>re.findall\<close> gives
  for it on a page is the function \<open>findall_zim\<close>, a parameter here.
\<close>

definition api_wiki_files ::
  "path \<Rightarrow> session \<Rightarrow> (string \<Rightarrow> fetch) \<Rightarrow> (string \<Rightarrow> (string \<times> string) list) \<Rightarrow> world \<Rightarrow> dict" where
  "api_wiki_files home s urlopen findall_zim w =
     (let usb_wiki = joinpath (parse_path (get_or (usb_path s) [])) ''wikipedia'';
          on_usb = (if drive_type s = Some ''usb'' \<and> exists w usb_wiki
                    then glob_zim w usb_wiki else []);
          on_disk = (if exists w (ZIM_DIR home) then glob_zim w (ZIM_DIR home) else []);
          existing_files = on_usb @ on_disk;
          entries = (case urlopen KIWIX_URL of
                       FetchOk html \<Rightarrow> map (wiki_entry existing_files) (findall_zim html)
                     | FetchFailed e \<Rightarrow> []);
          en = sort_key zim_name (map snd (filter (\<lambda>e. fst e = ''en'') entries));
          fr = sort_key zim_name (map snd (filter (\<lambda>e. fst e = ''fr'') entries))
      in [(''files'', JObj [(''en'', JArr (map wiki_file_json en)),
                            (''fr'', JArr (map wiki_file_json fr))])])"

section \<open>The finalizer: \<open>create_symlinks\<close>\<close>

text \<open>One statement after another: an exception of the first ends the run.\<close>

definition and_then ::
  "'a result \<times> world \<Rightarrow> ('a \<Rightarrow> world \<Rightarrow> 'b result \<times> world) \<Rightarrow> 'b result \<times> world" where
  "and_then m f = (case m of (Inl e, w) \<Rightarrow> (Inl e, w) | (Inr x, w) \<Rightarrow> f x w)"

text \<open>The entry \<open>n\<close> of a directory \<open>p\<close>, as \<open>iterdir\<close> and \<open>glob\<close> give it.\<close>

fun child :: "path \<Rightarrow> string \<Rightarrow> path" where
  "child (Path a ps) n = Path a (ps @ [n])"

text \<open>
  \<open>if local.exists() and not local.is_symlink(): backup = ...; local.rename(backup)\<close>, with
  the value of \<open>int(time.time())\<close> as \<open>now\<close>.
\<close>

definition backup_if_real ::
  "world \<Rightarrow> path \<Rightarrow> string \<Rightarrow> int \<Rightarrow> string list \<Rightarrow> string list result \<times> world" where
  "backup_if_real w local_dir stem now results =
     (if exists w local_dir \<and> \<not> is_symlink w local_dir
      then (let backup = with_name local_dir (stem @ str_of_int now)
            in and_then (rename w local_dir backup)
                 (\<lambda>u w1. (Inr (results @ [''Backed up: '' @ str_of_path backup]), w1)))
      else (Inr results, w))"

text \<open>\<open>if local.is_symlink(): local.unlink()\<close>.\<close>

definition unlink_if_symlink :: "world \<Rightarrow> path \<Rightarrow> unit result \<times> world" where
  "unlink_if_symlink w p = (if is_symlink w p then unlink w p else (Inr (), w))"

text \<open>
  The block the source writes twice, for \<open>tilesets\<close> and for \<open>my-maps\<close>: \<open>usb_dir\<close> is the
  directory on the volume, \<open>local_dir\<close> the local path, \<open>stem\<close> the name of the backup up to
  the time stamp.
\<close>

definition link_directory ::
  "world \<Rightarrow> path \<Rightarrow> path \<Rightarrow> string \<Rightarrow> int \<Rightarrow> string list \<Rightarrow> string list result \<times> world" where
  "link_directory w usb_dir local_dir stem now results =
     (if exists w usb_dir
      then and_then (mkdir_parents w (parent local_dir))
             (\<lambda>u w1. and_then (backup_if_real w1 local_dir stem now results)
               (\<lambda>results2 w2. and_then (unlink_if_symlink w2 local_dir)
                 (\<lambda>u w3. and_then (symlink_to w3 local_dir usb_dir)
                   (\<lambda>u w4. (Inr (results2 @ [''Linked: '' @ str_of_path local_dir @ '' -> ''
                                               @ str_of_path usb_dir]), w4)))))
      else (Inr results, w))"

text \<open>
  The loop that removes broken links from the local archive directory, over the names
  \<open>iterdir\<close> gave. \<open>item.resolve()\<close> raises on a loop of links, which the bare \<open>except\<close>
  takes like a missing target; an exception of \<open>item.unlink()\<close> inside the \<open>try\<close> is caught
  by the same \<open>except\<close>, which calls \<open>item.unlink()\<close> again.
\<close>

definition remove_broken :: "world \<Rightarrow> path \<Rightarrow> string \<Rightarrow> string list \<Rightarrow> string list result \<times> world" where
  "remove_broken w item n results =
     and_then (unlink w item) (\<lambda>u w1. (Inr (results @ [''Removed broken link: '' @ n]), w1))"

fun cleanup_broken ::
  "world \<Rightarrow> path \<Rightarrow> string list \<Rightarrow> string list \<Rightarrow> string list result \<times> world" where
  "cleanup_broken w local_wiki [] results = (Inr results, w)"
| "cleanup_broken w local_wiki (n # names) results =
     (let item = child local_wiki n
      in case (if is_symlink w item
               then (case final_key w 40 (key w item) of
                       Some target \<Rightarrow>
                         if node_at w target = None
                         then (case remove_broken w item n results of
                                 (Inl e, w1) \<Rightarrow> remove_broken w1 item n results
                               | (Inr results1, w1) \<Rightarrow> (Inr results1, w1))
                         else (Inr results, w)
                     | None \<Rightarrow> remove_broken w item n results)
               else (Inr results, w)) of
           (Inl e, w1) \<Rightarrow> (Inl e, w1)
         | (Inr results1, w1) \<Rightarrow> cleanup_broken w1 local_wiki names results1)"

text \<open>
  The loop over the archive files of the volume, over the names \<open>glob\<close> gave. A name read
  from a directory has no slash, so \<open>local_wiki / zim_file.name\<close> is the entry of that name.
\<close>

fun link_zims ::
  "world \<Rightarrow> path \<Rightarrow> path \<Rightarrow> string list \<Rightarrow> string list \<Rightarrow> string list result \<times> world" where
  "link_zims w local_wiki usb_wiki [] results = (Inr results, w)"
| "link_zims w local_wiki usb_wiki (n # names) results =
     (let zim_file = child usb_wiki n;
          local_file = child local_wiki n
      in case unlink_if_symlink w local_file of
           (Inl e, w1) \<Rightarrow> (Inl e, w1)
         | (Inr u, w1) \<Rightarrow>
             if \<not> exists w1 local_file
             then (case symlink_to w1 local_file zim_file of
                     (Inl e, w2) \<Rightarrow> (Inl e, w2)
                   | (Inr u, w2) \<Rightarrow>
                       link_zims w2 local_wiki usb_wiki names (results @ [''Linked: '' @ n]))
             else link_zims w1 local_wiki usb_wiki names results)"

definition link_wikipedia ::
  "world \<Rightarrow> path \<Rightarrow> path \<Rightarrow> string list \<Rightarrow> string list result \<times> world" where
  "link_wikipedia w usb_wiki local_wiki results =
     (if exists w usb_wiki
      then and_then (mkdir_parents w local_wiki)
             (\<lambda>u w1. case listdir w1 local_wiki of
                        Inl e \<Rightarrow> (Inl e, w1)
                      | Inr names \<Rightarrow>
                          and_then (cleanup_broken w1 local_wiki names results)
                            (\<lambda>results1 w2.
                               link_zims w2 local_wiki usb_wiki (glob_zim w2 usb_wiki) results1))
      else (Inr results, w))"

text \<open>
  \<open>create_symlinks()\<close>; \<open>t_tiles\<close> and \<open>t_maps\<close> are the values of the two calls of
  \<open>int(time.time())\<close>.
\<close>

definition create_symlinks ::
  "path \<Rightarrow> session \<Rightarrow> int \<Rightarrow> int \<Rightarrow> world \<Rightarrow> string list result \<times> world" where
  "create_symlinks home s t_tiles t_maps w =
     (let usb = parse_path (get_or (usb_path s) [])
      in if \<not> exists w usb then (Inr [], w)
         else and_then
                (link_directory w (joinpath usb ''tilesets'') (TILESET_DIR home)
                   ''tilesets.backup.'' t_tiles [])
                (\<lambda>results w1.
                   and_then
                     (link_directory w1 (joinpath usb ''my-maps'') (PBF_MAP_DIR home)
                        ''my-maps.backup.'' t_maps results)
                     (\<lambda>results2 w2.
                        link_wikipedia w2 (joinpath usb ''wikipedia'') (ZIM_DIR home) results2)))"

section \<open>Comparing two states of the file system\<close>

text \<open>What lies at and below an entry \<open>k\<close>: the node at \<open>k @ q\<close> for every \<open>q\<close>.\<close>

definition subtree :: "world \<Rightarrow> fpath \<Rightarrow> fpath \<Rightarrow> node option" where
  "subtree w k q = node_at w (k @ q)"

fun is_link :: "node \<Rightarrow> bool" where
  "is_link (Link t) = True"
| "is_link n = False"

text \<open>The working directory and what the system refuses are the same in both worlds.\<close>

definition same_env :: "world \<Rightarrow> world \<Rightarrow> bool" where
  "same_env w w' = (cwd w' = cwd w \<and> refuses w' = refuses w)"

text \<open>From \<open>w\<close> to \<open>w'\<close> only entries with the property \<open>P\<close> have changed.\<close>

definition changes_only :: "(fpath \<Rightarrow> bool) \<Rightarrow> world \<Rightarrow> world \<Rightarrow> bool" where
  "changes_only P w w' = (same_env w w' \<and> (\<forall>k. node_at w' k \<noteq> node_at w k \<longrightarrow> P k))"

text \<open>
  From \<open>w\<close> to \<open>w'\<close> every file and directory (every entry that is no link) is still
  there, but for the entries with the property \<open>M\<close>.
\<close>

definition keeps_real :: "(fpath \<Rightarrow> bool) \<Rightarrow> world \<Rightarrow> world \<Rightarrow> bool" where
  "keeps_real M w w' =
     (same_env w w' \<and>
      (\<forall>k x. node_at w k = Some x \<and> \<not> is_link x \<and> \<not> M k \<longrightarrow> node_at w' k = Some x))"

section \<open>A sample installation\<close>

text \<open>
  A home directory with the three local directories, one file in each, and a mounted
  volume; the session of an operator who chose the local disk, and of one who chose the
  volume.
\<close>

definition sample_home :: path where
  "sample_home = Path True [''home'', ''user'']"

definition local_session :: session where
  "local_session = \<lparr>drive_type = Some ''local'', usb_path = None, lang = Some ''en'', callsign = None\<rparr>"


definition sample_fs :: filesys where
  "sample_fs =
     [([], Dir),
      ([''home''], Dir),
      ([''home'', ''user''], Dir),
      ([''home'', ''user'', ''.local''], Dir),
      ([''home'', ''user'', ''.local'', ''share''], Dir),
      ([''home'', ''user'', ''.local'', ''share'', ''emcomm-tools''], Dir),
      ([''home'', ''user'', ''.local'', ''share'', ''emcomm-tools'', ''mbtileserver''], Dir),
      ([''home'', ''user'', ''.local'', ''share'', ''emcomm-tools'', ''mbtileserver'', ''tilesets''], Dir),
      ([''home'', ''user'', ''.local'', ''share'', ''emcomm-tools'', ''mbtileserver'', ''tilesets'',
        ''osm-ca-zoom0to10-20251120.mbtiles''], File ''tiles''),
      ([''home'', ''user'', ''my-maps''], Dir),
      ([''home'', ''user'', ''my-maps'', ''quebec-latest.osm.pbf''], File ''quebec''),
      ([''home'', ''user'', ''wikipedia''], Dir),
      ([''home'', ''user'', ''wikipedia'', ''wikipedia_fr_b.zim''], File ''fr''),
      ([''media''], Dir),
      ([''media'', ''user''], Dir),
      ([''media'', ''user'', ''USB1''], Dir)]"

text \<open>A transfer that breaks off with curl's exit code 56 and leaves the bytes it has got.\<close>

definition broken_transfer :: curl_run where
  "broken_transfer = \<lparr>returncode = 56, left_on_disk = Some ''partial'', stderr = [], seconds = 20\<rparr>"

text \<open>A transfer that is still running after 30 minutes.\<close>

definition slow_transfer :: curl_run where
  "slow_transfer = \<lparr>returncode = 0, left_on_disk = Some ''partial'', stderr = [], seconds = 2000\<rparr>"

definition sample_world :: world where
  "sample_world =
     \<lparr>fs = sample_fs, cwd = [''home'', ''user''], refuses = (\<lambda>c. False), curl_installed = True,
      curl_does = (\<lambda>url. broken_transfer), started = []\<rparr>"

definition slow_world :: world where
  "slow_world = sample_world\<lparr>curl_does := (\<lambda>url. slow_transfer)\<rparr>"

text \<open>A volume on which entries can be made but not removed.\<close>

definition append_only_world :: world where
  "append_only_world =
     sample_world\<lparr>refuses := (\<lambda>c. case c of Unlink k \<Rightarrow> True | _ \<Rightarrow> False)\<rparr>"

text \<open>
  The volume after the downloads of the example of the specification: the three
  directories, two archive files; and locally a broken link and a file of its own in the
  archive directory.
\<close>

definition finalize_fs :: filesys where
  "finalize_fs =
     sample_fs @
     [([''media'', ''user'', ''USB1'', ''tilesets''], Dir),
      ([''media'', ''user'', ''USB1'', ''tilesets'', ''osm-ca-zoom0to10-20251120.mbtiles''], File ''tiles''),
      ([''media'', ''user'', ''USB1'', ''my-maps''], Dir),
      ([''media'', ''user'', ''USB1'', ''wikipedia''], Dir),
      ([''media'', ''user'', ''USB1'', ''wikipedia'', ''wikipedia_en_a.zim''], File ''en''),
      ([''media'', ''user'', ''USB1'', ''wikipedia'', ''wikipedia_fr_b.zim''], File ''fr on usb''),
      ([''home'', ''user'', ''wikipedia'', ''old.zim''], Link (Path True [''media'', ''gone'', ''old.zim'']))]"

definition finalize_world :: world where
  "finalize_world = sample_world\<lparr>fs := finalize_fs\<rparr>"

text \<open>A write-protected volume: every call that changes something is refused.\<close>

definition read_only_world :: world where
  "read_only_world = sample_world\<lparr>refuses := (\<lambda>c. True)\<rparr>"

section \<open>Properties of the region catalog\<close>












section \<open>Loading the user configuration\<close>









section \<open>Resolving the destination\<close>









section \<open>Facts about paths and the file system\<close>












section \<open>The download endpoints: what is checked before a transfer\<close>









section \<open>The download endpoints: after a failed transfer\<close>

text \<open>
  Claim C2 at a failing input. The transfer of an archive file breaks off with the exit
  code 56 after some bytes are written: \<open>api_download_wiki\<close> answers with the failure and
  leaves the bytes under the final name, and the next request for the same file is
  answered with \<open>skipped\<close>. The same holds when the transfer runs into the timeout, and for
  \<open>api_download_tile\<close>.
\<close>

theorem transfer_failure_leaves_partial_file:
  "\<not> exists sample_world (joinpath (wiki_dest sample_home local_session) ''wikipedia_en_a.zim'')
   \<and> fst (api_download_wiki sample_home local_session (Some ''wikipedia_en_a.zim'') sample_world)
       = Inr [(''success'', JBool False), (''error'', JStr ''Network error - try again'')]
   \<and> lstat (snd (api_download_wiki sample_home local_session (Some ''wikipedia_en_a.zim'') sample_world))
        (joinpath (wiki_dest sample_home local_session) ''wikipedia_en_a.zim'') = Some (File ''partial'')
   \<and> fst (api_download_wiki sample_home local_session (Some ''wikipedia_en_a.zim'')
        (snd (api_download_wiki sample_home local_session (Some ''wikipedia_en_a.zim'') sample_world)))
       = Inr skipped_outcome
   \<and> fst (api_download_wiki sample_home local_session (Some ''wikipedia_en_a.zim'') slow_world)
       = Inr [(''success'', JBool False), (''error'', JStr ''Download timed out (30 min limit)'')]
   \<and> lstat (snd (api_download_wiki sample_home local_session (Some ''wikipedia_en_a.zim'') slow_world))
        (joinpath (wiki_dest sample_home local_session) ''wikipedia_en_a.zim'') = Some (File ''partial'')
   \<and> fst (api_download_tile sample_home local_session (Some ''osm-us-zoom0to11-20251120.mbtiles'') sample_world)
       = Inr [(''success'', JBool False), (''error'', JStr ''Network error - try again'')]
   \<and> lstat (snd (api_download_tile sample_home local_session (Some ''osm-us-zoom0to11-20251120.mbtiles'') sample_world))
        (joinpath (tiles_dest sample_home local_session) ''osm-us-zoom0to11-20251120.mbtiles'') = Some (File ''partial'')"
proof -
  have a: "\<not> exists sample_world (joinpath (wiki_dest sample_home local_session) ''wikipedia_en_a.zim'')"
    by code_simp
  have b: "fst (api_download_wiki sample_home local_session (Some ''wikipedia_en_a.zim'') sample_world)
       = Inr [(''success'', JBool False), (''error'', JStr ''Network error - try again'')]"
    by code_simp
  have c: "lstat (snd (api_download_wiki sample_home local_session (Some ''wikipedia_en_a.zim'') sample_world))
        (joinpath (wiki_dest sample_home local_session) ''wikipedia_en_a.zim'') = Some (File ''partial'')"
    by code_simp
  have d: "fst (api_download_wiki sample_home local_session (Some ''wikipedia_en_a.zim'')
        (snd (api_download_wiki sample_home local_session (Some ''wikipedia_en_a.zim'') sample_world)))
       = Inr skipped_outcome"
    by code_simp
  have e: "fst (api_download_wiki sample_home local_session (Some ''wikipedia_en_a.zim'') slow_world)
       = Inr [(''success'', JBool False), (''error'', JStr ''Download timed out (30 min limit)'')]"
    by code_simp
  have f: "lstat (snd (api_download_wiki sample_home local_session (Some ''wikipedia_en_a.zim'') slow_world))
        (joinpath (wiki_dest sample_home local_session) ''wikipedia_en_a.zim'') = Some (File ''partial'')"
    by code_simp
  have g: "fst (api_download_tile sample_home local_session (Some ''osm-us-zoom0to11-20251120.mbtiles'') sample_world)
       = Inr [(''success'', JBool False), (''error'', JStr ''Network error - try again'')]"
    by code_simp
  have h: "lstat (snd (api_download_tile sample_home local_session (Some ''osm-us-zoom0to11-20251120.mbtiles'') sample_world))
        (joinpath (tiles_dest sample_home local_session) ''osm-us-zoom0to11-20251120.mbtiles'') = Some (File ''partial'')"
    by code_simp
  from a b c d e f g h show ?thesis by blast
qed

text \<open>\<open>api_download_osm\<close> removes the partial file at the same input.\<close>

lemma osm_failure_removes_partial_file: "fst (api_download_osm sample_home local_session (Some ''ontario'') (Some ''canada'') sample_world)
       = Inr [(''success'', JBool False), (''error'', JStr ''Network error during download - try again'')]
   \<and> lstat (snd (api_download_osm sample_home local_session (Some ''ontario'') (Some ''canada'') sample_world))
        (joinpath (osm_dest sample_home local_session) ''ontario-latest.osm.pbf'') = None"
proof
  show "fst (api_download_osm sample_home local_session (Some ''ontario'') (Some ''canada'') sample_world)
       = Inr [(''success'', JBool False), (''error'', JStr ''Network error during download - try again'')]"
    by code_simp
  show "lstat (snd (api_download_osm sample_home local_session (Some ''ontario'') (Some ''canada'') sample_world))
        (joinpath (osm_dest sample_home local_session) ''ontario-latest.osm.pbf'') = None"
    by code_simp
qed

section \<open>The write probe\<close>

lemma os_utime_world: "snd (os_utime w k) = w"
  by (simp add: os_utime_def split: option.splits)

lemma os_open_creat_failure: "fst (os_open_creat w k) = Inl e \<Longrightarrow> snd (os_open_creat w k) = w"
  by (auto simp: os_open_creat_def split: option.splits node.splits if_splits)

lemma os_open_creat_cwd: "cwd (snd (os_open_creat w k)) = cwd w"
  by (auto simp: os_open_creat_def split: option.splits node.splits if_splits)

lemma touch_failure: "fst (touch w p) = Inl e \<Longrightarrow> snd (touch w p) = w"
proof -
  assume f: "fst (touch w p) = Inl e"
  obtain r where u: "os_utime w (key w p) = (r, w)"
    using os_utime_world [of w "key w p"] by (cases "os_utime w (key w p)") simp
  show ?thesis
  proof (cases r)
    case (Inl e')
    then have t: "touch w p = os_open_creat w (key w p)" using u by (simp add: touch_def)
    with f show ?thesis using os_open_creat_failure by simp
  next
    case (Inr x)
    then show ?thesis using u f by (simp add: touch_def)
  qed
qed

lemma touch_cwd: "cwd (snd (touch w p)) = cwd w"
proof -
  obtain r where u: "os_utime w (key w p) = (r, w)"
    using os_utime_world [of w "key w p"] by (cases "os_utime w (key w p)") simp
  show ?thesis using u by (cases r) (simp_all add: touch_def os_open_creat_cwd)
qed

lemma unlink_failure: "fst (unlink w p) = Inl e \<Longrightarrow> snd (unlink w p) = w"
  by (auto simp: unlink_def Let_def split: option.splits node.splits if_splits)

lemma unlink_cwd: "cwd (snd (unlink w p)) = cwd w"
  by (auto simp: unlink_def Let_def split: option.splits node.splits if_splits)

lemma key_cwd: "cwd w' = cwd w \<Longrightarrow> key w' p = key w p"
  by (cases p) simp

lemma unlink_success: "fst (unlink w p) = Inr u \<Longrightarrow> lstat (snd (unlink w p)) p = None"
  by (cases p) (auto simp: unlink_def Let_def lstat_def node_at_def delete_conv'
      split: option.splits node.splits if_splits)

text \<open>
  Claim C3, as amended. \<open>check_path_writable\<close> always returns a truth value, no exception
  leaves it. It returns true exactly when the path is not empty and both \<open>touch\<close> and
  \<open>unlink\<close> of the sentinel succeed, and then the sentinel is gone. When the path is empty
  or \<open>touch\<close> fails it returns false and leaves the world as it was. When \<open>touch\<close> succeeds
  and \<open>unlink\<close> fails it returns false and leaves the world as \<open>touch\<close> left it.
\<close>

theorem probe_result:
  assumes "check_path_writable w p = (b, w')"
  shows "(b \<longleftrightarrow> p \<noteq> [] \<and> fst (touch w (probe_file p)) = Inr ()
                 \<and> fst (unlink (snd (touch w (probe_file p))) (probe_file p)) = Inr ())
       \<and> (b \<longrightarrow> lstat w' (probe_file p) = None)
       \<and> (p = [] \<or> fst (touch w (probe_file p)) \<noteq> Inr () \<longrightarrow> \<not> b \<and> w' = w)
       \<and> (p \<noteq> [] \<and> \<not> b \<and> fst (touch w (probe_file p)) = Inr ()
            \<longrightarrow> w' = snd (touch w (probe_file p)))"
proof (cases "p = []")
  case True
  then show ?thesis using assms by (simp add: check_path_writable_def)
next
  case False
  let ?t = "probe_file p"
  obtain r1 w1 where t: "touch w ?t = (r1, w1)" by (cases "touch w ?t")
  show ?thesis
  proof (cases r1)
    case (Inl e)
    then have "w1 = w" using touch_failure [of w ?t e] t by simp
    then show ?thesis using False assms t Inl
      by (auto simp: check_path_writable_def probe_file_def Let_def)
  next
    case (Inr u)
    obtain r2 w2 where ul: "unlink w1 ?t = (r2, w2)" by (cases "unlink w1 ?t")
    show ?thesis
    proof (cases r2)
      case (Inl e)
      then have "w2 = w1" using unlink_failure [of w1 ?t e] ul by simp
      then show ?thesis using False assms t Inr ul Inl
        by (auto simp: check_path_writable_def probe_file_def Let_def)
    next
      case Inr2: (Inr u2)
      have "lstat w2 ?t = None" using unlink_success [of w1 ?t u2] ul Inr2 by simp
      then show ?thesis using False assms t Inr ul Inr2
        by (auto simp: check_path_writable_def probe_file_def Let_def)
    qed
  qed
qed

text \<open>
  The claim as first stated fails where entries can be made but not removed: the probe
  returns false and the sentinel it made stays.
\<close>

theorem probe_counterexample:
  "lstat append_only_world (joinpath (parse_path ''/media/user/USB1'') ''.emcomm-write-test'') = None
   \<and> fst (check_path_writable append_only_world ''/media/user/USB1'') = False
   \<and> lstat (snd (check_path_writable append_only_world ''/media/user/USB1''))
        (joinpath (parse_path ''/media/user/USB1'') ''.emcomm-write-test'') = Some (File [])"
proof -
  have a: "lstat append_only_world (joinpath (parse_path ''/media/user/USB1'') ''.emcomm-write-test'') = None"
    by code_simp
  have b: "fst (check_path_writable append_only_world ''/media/user/USB1'') = False"
    by code_simp
  have c: "lstat (snd (check_path_writable append_only_world ''/media/user/USB1''))
        (joinpath (parse_path ''/media/user/USB1'') ''.emcomm-write-test'') = Some (File [])"
    by code_simp
  from a b c show ?thesis by blast
qed

text \<open>The theorem on a writable volume and on a write-protected one.\<close>

theorem probe_result_witness:
  "fst (check_path_writable sample_world ''/media/user/USB1'') = True
   \<and> lstat (snd (check_path_writable sample_world ''/media/user/USB1''))
        (probe_file ''/media/user/USB1'') = None
   \<and> fst (check_path_writable read_only_world ''/media/user/USB1'') = False
   \<and> snd (check_path_writable read_only_world ''/media/user/USB1'') = read_only_world"
proof -
  have a: "fst (check_path_writable sample_world ''/media/user/USB1'') = True"
    by code_simp
  have b: "fst (touch read_only_world (probe_file ''/media/user/USB1'')) \<noteq> Inr ()"
    by code_simp
  have c: "check_path_writable sample_world ''/media/user/USB1''
      = (fst (check_path_writable sample_world ''/media/user/USB1''),
         snd (check_path_writable sample_world ''/media/user/USB1''))"
    by simp
  have d: "check_path_writable read_only_world ''/media/user/USB1''
      = (fst (check_path_writable read_only_world ''/media/user/USB1''),
         snd (check_path_writable read_only_world ''/media/user/USB1''))"
    by simp
  show ?thesis
    using a b probe_result [OF c] probe_result [OF d] by blast
qed

section \<open>The catalogs when the listing cannot be fetched\<close>

lemma osm_regions_fetch_failed:
  "urlopen (osm_url country) = FetchFailed e \<Longrightarrow>
     api_osm_regions urlopen country = [(''error'', JStr e), (''regions'', JArr [])]"
  by (simp add: api_osm_regions_def Let_def)

lemma wiki_files_fetch_failed:
  "urlopen KIWIX_URL = FetchFailed e \<Longrightarrow>
     api_wiki_files home s urlopen findall_zim w
       = [(''files'', JObj [(''en'', JArr []), (''fr'', JArr [])])]"
  by (simp add: api_wiki_files_def Let_def)

text \<open>
  Claim C5 at a failing input. The fetch of the archive listing times out:
  \<open>api_wiki_files\<close> answers with the two empty lists and nothing else, there is no key
  \<open>error\<close> in the answer. \<open>api_osm_regions\<close> answers the same failure with the empty list
  and the key \<open>error\<close>.
\<close>

theorem wiki_files_failure_has_no_error:
  "api_wiki_files sample_home local_session (\<lambda>url. FetchFailed ''timed out'') (\<lambda>html. []) sample_world
     = [(''files'', JObj [(''en'', JArr []), (''fr'', JArr [])])]
   \<and> map_of (api_wiki_files sample_home local_session (\<lambda>url. FetchFailed ''timed out'') (\<lambda>html. [])
        sample_world) ''error'' = None
   \<and> api_osm_regions (\<lambda>url. FetchFailed ''timed out'') ''canada''
     = [(''error'', JStr ''timed out''), (''regions'', JArr [])]"
proof -
  have a: "api_wiki_files sample_home local_session (\<lambda>url. FetchFailed ''timed out'') (\<lambda>html. []) sample_world
     = [(''files'', JObj [(''en'', JArr []), (''fr'', JArr [])])]"
    by (simp add: api_wiki_files_def Let_def)
  have b: "api_osm_regions (\<lambda>url. FetchFailed ''timed out'') ''canada''
     = [(''error'', JStr ''timed out''), (''regions'', JArr [])]"
    by (simp add: api_osm_regions_def Let_def)
  from a b show ?thesis by simp
qed

end
